theory Spec2Isabelle
  imports Main
begin

section \<open>Values exchanged with the provider\<close>

text \<open>
  The modules handle Python values obtained from \<^verbatim>\<open>json.loads\<close> and from the module
  parameters: \<^verbatim>\<open>None\<close>, integers, strings, lists and dictionaries. A dictionary is an
  association list read with \<open>map_of\<close>; \<open>JNull\<close> is Python's \<^verbatim>\<open>None\<close>. Booleans and
  floating-point numbers, which the provider's zones and record sets do not contain, are
  left out.
\<close>

datatype json = JNull | JInt int | JStr string | JArr "json list" | JObj "(string \<times> json) list"

text \<open>
  \<open>FailJson\<close> is a call of \<^verbatim>\<open>module.fail_json(msg=...)\<close>, which ends the invocation;
  \<open>PyException\<close> is an uncaught Python exception, named by its class.
\<close>

datatype error = FailJson string | PyException string

text \<open>
  \<^verbatim>\<open>fetch_url\<close> returns a response object and an info dictionary. The model keeps
  \<^verbatim>\<open>info['status']\<close> and what \<^verbatim>\<open>resp.read()\<close> followed by \<^verbatim>\<open>json.loads\<close> gives: no
  content (a missing response object or an empty body), a parsed value, or a body the
  JSON library rejects (its error text, and the body as \<^verbatim>\<open>format\<close> prints it).
\<close>

datatype content = NoContent | Parsed json | Unparsable string string

record response =
  status :: int
  content :: content

record request =
  req_url :: string
  req_headers :: "(string \<times> string) list"
  req_data :: "json option"
  req_method :: string

text \<open>
  The provider is any function from its own state and a request to a response and a new
  state. The network state holds the provider's state and the requests sent so far.
\<close>

type_synonym 'w provider = "'w \<Rightarrow> request \<Rightarrow> response \<times> 'w"

record 'w net =
  world :: 'w
  sent :: "request list"

definition fetch_url :: "'w provider \<Rightarrow> request \<Rightarrow> 'w net \<Rightarrow> response \<times> 'w net" where
  "fetch_url prov rq s =
     (case prov (world s) rq of
        (resp, w') \<Rightarrow> (resp, \<lparr>world = w', sent = sent s @ [rq]\<rparr>))"

definition mutating :: "request \<Rightarrow> bool" where
  "mutating rq = (req_method rq \<in> set [''POST'', ''PUT'', ''DELETE''])"

section \<open>Python primitives used by the modules\<close>

definition digit_char :: "nat \<Rightarrow> char" where
  "digit_char n = char_of (48 + n)"

function str_nat :: "nat \<Rightarrow> string" where
  "str_nat n = (if n < 10 then [digit_char n] else str_nat (n div 10) @ [digit_char (n mod 10)])"
  by pat_completeness auto
termination
  by (relation "measure id") auto

declare str_nat.simps [simp del]

definition str_int :: "int \<Rightarrow> string" where
  "str_int i = (if i < 0 then ''-'' @ str_nat (nat (- i)) else str_nat (nat i))"

text \<open>
  A \<open>char\<close> stands for a code point below 256. \<^verbatim>\<open>str.lower\<close> moves the capital letters of
  that range, \<^verbatim>\<open>A\<close> to \<^verbatim>\<open>Z\<close> and the accented capitals 192 to 222 (215, the
  multiplication sign, is no letter), 32 places up and leaves every other one.
\<close>

definition lower_char :: "char \<Rightarrow> char" where
  "lower_char c =
     (let n = (of_char c :: nat)
      in if (65 \<le> n \<and> n \<le> 90) \<or> (192 \<le> n \<and> n \<le> 222 \<and> n \<noteq> 215)
         then char_of (n + 32) else c)"

text \<open>\<^verbatim>\<open>lowercase_string\<close>: a parameter that is not a string (\<^verbatim>\<open>None\<close>) is returned as it is.\<close>

definition lowercase_string :: "string option \<Rightarrow> string option" where
  "lowercase_string param = (case param of None \<Rightarrow> None | Some s \<Rightarrow> Some (map lower_char s))"

text \<open>Truth value of a Python object in a condition.\<close>

fun truthy :: "json \<Rightarrow> bool" where
  "truthy JNull = False"
| "truthy (JInt i) = (i \<noteq> 0)"
| "truthy (JStr s) = (s \<noteq> [])"
| "truthy (JArr xs) = (xs \<noteq> [])"
| "truthy (JObj kvs) = (kvs \<noteq> [])"

definition truthy_str :: "string option \<Rightarrow> bool" where
  "truthy_str p = (case p of None \<Rightarrow> False | Some s \<Rightarrow> s \<noteq> [])"

fun join_comma :: "string list \<Rightarrow> string" where
  "join_comma [] = []"
| "join_comma [x] = x"
| "join_comma (x # y # ys) = x @ '', '' @ join_comma (y # ys)"

text \<open>
  \<^verbatim>\<open>repr\<close> of a string: double quotes when the string has a single quote and no double
  quote, single quotes otherwise; the quote in use and the backslash are escaped, tab,
  newline and carriage return are written \<^verbatim>\<open>\t\<close>, \<^verbatim>\<open>\n\<close>, \<^verbatim>\<open>\r\<close>, and a code point that is
  not printable (below 32, 127 to 160, 173) as \<^verbatim>\<open>\x\<close> and two hexadecimal digits.
\<close>

definition hex_digit :: "nat \<Rightarrow> char" where
  "hex_digit n = ''0123456789abcdef'' ! (n mod 16)"

definition repr_char :: "char \<Rightarrow> char \<Rightarrow> string" where
  "repr_char quote c =
     (let n = (of_char c :: nat)
      in if c = quote \<or> c = CHR 0x5C then [CHR 0x5C, c]
         else if n = 9 then [CHR 0x5C, CHR ''t'']
         else if n = 10 then [CHR 0x5C, CHR ''n'']
         else if n = 13 then [CHR 0x5C, CHR ''r'']
         else if n < 32 \<or> (127 \<le> n \<and> n \<le> 160) \<or> n = 173
         then [CHR 0x5C, CHR ''x'', hex_digit (n div 16), hex_digit n]
         else [c])"

definition repr_str :: "string \<Rightarrow> string" where
  "repr_str s =
     (let quote = (if CHR 0x27 \<in> set s \<and> CHR 0x22 \<notin> set s then CHR 0x22 else CHR 0x27)
      in [quote] @ concat (map (repr_char quote) s) @ [quote])"

text \<open>
  \<^verbatim>\<open>'%s' % v\<close>: a string is inserted as it is, other values through \<^verbatim>\<open>repr\<close>.
\<close>

fun py_repr :: "json \<Rightarrow> string" where
  "py_repr JNull = ''None''"
| "py_repr (JInt i) = str_int i"
| "py_repr (JStr s) = repr_str s"
| "py_repr (JArr xs) = ''['' @ join_comma (map py_repr xs) @ '']''"
| "py_repr (JObj kvs) =
     ''{'' @ join_comma (map (\<lambda>(k, v). repr_str k @ '': '' @ py_repr v) kvs) @ ''}''"

definition py_str :: "json \<Rightarrow> string" where
  "py_str v = (case v of JStr s \<Rightarrow> s | _ \<Rightarrow> py_repr v)"

definition fmt_opt :: "string option \<Rightarrow> string" where
  "fmt_opt p = (case p of None \<Rightarrow> ''None'' | Some s \<Rightarrow> s)"

text \<open>Module parameters as Python values.\<close>

definition of_str :: "string option \<Rightarrow> json" where
  "of_str p = (case p of None \<Rightarrow> JNull | Some s \<Rightarrow> JStr s)"

definition of_int_opt :: "int option \<Rightarrow> json" where
  "of_int_opt p = (case p of None \<Rightarrow> JNull | Some i \<Rightarrow> JInt i)"

definition of_values :: "string list option \<Rightarrow> json" where
  "of_values p = (case p of None \<Rightarrow> JNull | Some vs \<Rightarrow> JArr (map JStr vs))"

text \<open>\<^verbatim>\<open>v[key]\<close> with a string key: only a dictionary that has the key answers.\<close>

fun py_getitem :: "json \<Rightarrow> string \<Rightarrow> error + json" where
  "py_getitem (JObj kvs) k =
     (case map_of kvs k of None \<Rightarrow> Inl (PyException ''KeyError'') | Some v \<Rightarrow> Inr v)"
| "py_getitem v k = Inl (PyException ''TypeError'')"

text \<open>Iteration: a list gives its elements, a dictionary its keys, a string its characters.\<close>

fun py_iter :: "json \<Rightarrow> error + json list" where
  "py_iter (JArr xs) = Inr xs"
| "py_iter (JObj kvs) = Inr (map (\<lambda>kv. JStr (fst kv)) kvs)"
| "py_iter (JStr s) = Inr (map (\<lambda>c. JStr [c]) s)"
| "py_iter v = Inl (PyException ''TypeError'')"

fun hashable :: "json \<Rightarrow> bool" where
  "hashable (JArr xs) = False"
| "hashable (JObj kvs) = False"
| "hashable v = True"

text \<open>\<^verbatim>\<open>set(v)\<close>: the elements of the iteration, which must be hashable.\<close>

definition py_set :: "json \<Rightarrow> error + json set" where
  "py_set v =
     (case py_iter v of
        Inl e \<Rightarrow> Inl e
      | Inr xs \<Rightarrow> if list_all hashable xs then Inr (set xs) else Inl (PyException ''TypeError''))"

section \<open>The management module \<^verbatim>\<open>gandi_livedns\<close>\<close>

text \<open>
  \<^verbatim>\<open>module.params\<close> after the framework has parsed the arguments, and \<^verbatim>\<open>module.check_mode\<close>.
  The items of \<^verbatim>\<open>values\<close> are strings, as the provider stores them and as every example of
  the documentation writes them.
\<close>

record module =
  p_api_key :: string
  p_record :: "string option"
  p_state :: string
  p_ttl :: "int option"
  p_type :: "string option"
  p_values :: "string list option"
  p_zone :: "string option"
  p_domain :: "string option"
  check_mode :: bool

definition type_choices :: "string list" where
  "type_choices = [''A'', ''AAAA'', ''ALIAS'', ''CAA'', ''CDS'', ''CNAME'', ''DNAME'', ''DS'',
     ''KEY'', ''LOC'', ''MX'', ''NS'', ''PTR'', ''SPF'', ''SRV'', ''SSHFP'', ''TLSA'', ''TXT'', ''WKS'']"

text \<open>
  What \<^verbatim>\<open>argument_spec\<close> and \<^verbatim>\<open>required_if\<close> of \<^verbatim>\<open>main\<close> let through: the choices of
  \<^verbatim>\<open>state\<close> and \<^verbatim>\<open>type\<close>, and the parameters required for each state.
\<close>

definition argument_spec_ok :: "module \<Rightarrow> bool" where
  "argument_spec_ok m =
     (p_state m \<in> set [''absent'', ''present'']
      \<and> (case p_type m of None \<Rightarrow> True | Some t \<Rightarrow> t \<in> set type_choices)
      \<and> (if p_state m = ''present''
         then p_record m \<noteq> None \<and> p_type m \<noteq> None \<and> p_values m \<noteq> None
         else p_record m \<noteq> None \<and> p_type m \<noteq> None))"

record gandi_api =
  self_api_key :: string
  self_record :: "string option"
  self_state :: string
  self_ttl :: "int option"
  self_type :: "string option"
  self_values :: "string list option"
  self_zone :: "string option"
  self_domain :: "string option"
  self_check_mode :: bool

definition api_endpoint :: string where
  "api_endpoint = ''https://dns.api.gandi.net/api/v5''"

definition error_strings :: "(int \<times> string) list" where
  "error_strings = [(400, ''Bad request''), (401, ''Permission denied''), (404, ''Resource not found'')]"

text \<open>\<^verbatim>\<open>GandiAPI.__init__\<close>; \<open>self_check_mode\<close> is \<^verbatim>\<open>self.module.check_mode\<close>.\<close>

definition GandiAPI :: "module \<Rightarrow> gandi_api" where
  "GandiAPI m =
     \<lparr>self_api_key = p_api_key m,
      self_record = lowercase_string (p_record m),
      self_state = p_state m,
      self_ttl = p_ttl m,
      self_type = p_type m,
      self_values = p_values m,
      self_zone = p_zone m,
      self_domain = lowercase_string (p_domain m),
      self_check_mode = check_mode m\<rparr>"

text \<open>
  \<^verbatim>\<open>_gandi_api_call\<close>. The payload, when there is one, is a dictionary of strings, integers
  and lists of strings, which \<^verbatim>\<open>json.dumps\<close> always encodes; the request carries it as data.
  The result is the parsed body (\<open>JNull\<close> when there is none) and the status.
\<close>

definition gandi_api_call ::
  "'w provider \<Rightarrow> gandi_api \<Rightarrow> string \<Rightarrow> string \<Rightarrow> json option \<Rightarrow> bool \<Rightarrow> 'w net
     \<Rightarrow> (error + json \<times> int) \<times> 'w net" where
  "gandi_api_call prov self api_call method payload error_on_404 s =
     (let headers = [(''X-Api-Key'', self_api_key self), (''Content-Type'', ''application/json'')];
          data = (case payload of None \<Rightarrow> None | Some p \<Rightarrow> if truthy p then Some p else None)
      in case fetch_url prov
                \<lparr>req_url = api_endpoint @ api_call, req_headers = headers,
                 req_data = data, req_method = method\<rparr> s of
        (resp, s') \<Rightarrow>
          let error_msg =
                (if status resp \<ge> 400 \<and> (status resp \<noteq> 404 \<or> error_on_404)
                 then ''API error '' @ (case map_of error_strings (status resp) of
                                          None \<Rightarrow> '''' | Some l \<Rightarrow> l)
                      @ ''; Status: '' @ str_int (status resp)
                      @ ''; Method: '' @ method @ '': Call: '' @ api_call
                 else '''');
              result = (case content resp of Parsed j \<Rightarrow> j | _ \<Rightarrow> JNull);
              error_msg2 =
                (case content resp of
                   Unparsable e c \<Rightarrow>
                     error_msg @ ''; Failed to parse API response with error '' @ e @ '': '' @ c
                 | _ \<Rightarrow> error_msg)
          in if error_msg2 \<noteq> [] then (Inl (FailJson error_msg2), s')
             else (Inr (result, status resp), s'))"

text \<open>\<^verbatim>\<open>build_result\<close>: \<^verbatim>\<open>result.get\<close> exists on a dictionary only.\<close>

fun build_fields :: "string list \<Rightarrow> (string \<times> json) list \<Rightarrow> (string \<times> json) list" where
  "build_fields [] result = []"
| "build_fields (k # ks) result =
     (case map_of result (''rrset_'' @ k) of
        None \<Rightarrow> build_fields ks result
      | Some v \<Rightarrow> if v \<noteq> JNull then (k, v) # build_fields ks result
                  else build_fields ks result)"

definition build_result :: "gandi_api \<Rightarrow> json \<Rightarrow> error + json" where
  "build_result self result =
     (case result of
        JNull \<Rightarrow> Inr JNull
      | JObj kvs \<Rightarrow>
          Inr (JObj (build_fields [''name'', ''type'', ''ttl'', ''values''] kvs
                     @ (if truthy_str (self_zone self) then [(''zone'', of_str (self_zone self))]
                        else [(''domain'', of_str (self_domain self))])))
      | _ \<Rightarrow> Inl (PyException ''AttributeError''))"

text \<open>\<^verbatim>\<open>get_zones\<close> and the loop of \<^verbatim>\<open>_get_zone_id\<close>.\<close>

definition get_zones :: "'w provider \<Rightarrow> gandi_api \<Rightarrow> 'w net \<Rightarrow> (error + json) \<times> 'w net" where
  "get_zones prov self s =
     (case gandi_api_call prov self ''/zones'' ''GET'' None True s of
        (Inl e, s') \<Rightarrow> (Inl e, s')
      | (Inr (zones, st), s') \<Rightarrow> (Inr zones, s'))"

fun zone_scan :: "json list \<Rightarrow> string \<Rightarrow> error + json" where
  "zone_scan [] zone_name = Inl (FailJson (''No zone found with name '' @ zone_name))"
| "zone_scan (z # zs) zone_name =
     (case py_getitem z ''name'' of
        Inl e \<Rightarrow> Inl e
      | Inr n \<Rightarrow> if n = JStr zone_name then py_getitem z ''uuid'' else zone_scan zs zone_name)"

definition get_zone_id ::
  "'w provider \<Rightarrow> gandi_api \<Rightarrow> string \<Rightarrow> 'w net \<Rightarrow> (error + json) \<times> 'w net" where
  "get_zone_id prov self zone_name s =
     (case get_zones prov self s of
        (Inl e, s') \<Rightarrow> (Inl e, s')
      | (Inr zones, s') \<Rightarrow>
          (case py_iter zones of
             Inl e \<Rightarrow> (Inl e, s')
           | Inr zs \<Rightarrow> (zone_scan zs zone_name, s')))"

text \<open>
  The block \<^verbatim>\<open>if self.zone: zone_id = self._get_zone_id(self.zone) else: zone_id = None\<close>
  that opens \<^verbatim>\<open>ensure_dns_record\<close>, \<^verbatim>\<open>delete_dns_records\<close> and \<^verbatim>\<open>get_dns_records\<close>.
\<close>

definition resolve_zone :: "'w provider \<Rightarrow> gandi_api \<Rightarrow> 'w net \<Rightarrow> (error + json) \<times> 'w net" where
  "resolve_zone prov self s =
     (if truthy_str (self_zone self) then get_zone_id prov self (fmt_opt (self_zone self)) s
      else (Inr JNull, s))"

text \<open>
  The block \<^verbatim>\<open>if zone_id: url = '/zones/%s' % (zone_id) else: url = '/domains/%s' % (domain)\<close>
  that opens each operation on records.
\<close>

definition scope_url :: "json \<Rightarrow> string option \<Rightarrow> string" where
  "scope_url zone_id domain =
     (if truthy zone_id then ''/zones/'' @ py_str zone_id else ''/domains/'' @ fmt_opt domain)"

fun filter_type :: "json list \<Rightarrow> string \<Rightarrow> error + json list" where
  "filter_type [] t = Inr []"
| "filter_type (r # rs) t =
     (case py_getitem r ''rrset_type'' of
        Inl e \<Rightarrow> Inl e
      | Inr v \<Rightarrow>
          (case filter_type rs t of
             Inl e \<Rightarrow> Inl e
           | Inr rs' \<Rightarrow> Inr (if v = JStr t then r # rs' else rs')))"

definition records_url :: "string option \<Rightarrow> string option \<Rightarrow> json \<Rightarrow> string option \<Rightarrow> string" where
  "records_url name type zone_id domain =
     scope_url zone_id domain @ ''/records''
     @ (if truthy_str name
        then ''/'' @ fmt_opt name @ (if truthy_str type then ''/'' @ fmt_opt type else '''')
        else '''')"

definition get_records ::
  "'w provider \<Rightarrow> gandi_api \<Rightarrow> string option \<Rightarrow> string option \<Rightarrow> json \<Rightarrow> string option
     \<Rightarrow> 'w net \<Rightarrow> (error + json list option) \<times> 'w net" where
  "get_records prov self name type zone_id domain s =
     (case gandi_api_call prov self (records_url name type zone_id domain) ''GET'' None False s of
        (Inl e, s') \<Rightarrow> (Inl e, s')
      | (Inr (records, st), s') \<Rightarrow>
          if st = 404 then (Inr None, s')
          else
            let recs = (case records of JArr xs \<Rightarrow> xs | _ \<Rightarrow> [records])
            in if \<not> truthy_str name \<and> truthy_str type
               then (case filter_type recs (fmt_opt type) of
                       Inl e \<Rightarrow> (Inl e, s')
                     | Inr rs \<Rightarrow> (Inr (Some rs), s'))
               else (Inr (Some recs), s'))"

text \<open>\<^verbatim>\<open>create_record\<close>: \<open>JNull\<close> is the \<^verbatim>\<open>None\<close> returned when the status is not 201.\<close>

definition create_record ::
  "'w provider \<Rightarrow> gandi_api \<Rightarrow> string option \<Rightarrow> string option \<Rightarrow> string list option
     \<Rightarrow> int option \<Rightarrow> json \<Rightarrow> string option \<Rightarrow> 'w net \<Rightarrow> (error + json) \<times> 'w net" where
  "create_record prov self name type values ttl zone_id domain s =
     (let url = scope_url zone_id domain @ ''/records'';
          new_record = JObj [(''rrset_name'', of_str name), (''rrset_type'', of_str type),
                             (''rrset_values'', of_values values), (''rrset_ttl'', of_int_opt ttl)]
      in case gandi_api_call prov self url ''POST'' (Some new_record) True s of
           (Inl e, s') \<Rightarrow> (Inl e, s')
         | (Inr (record, st), s') \<Rightarrow>
             if st \<in> set [201] then (Inr new_record, s') else (Inr JNull, s'))"

definition update_record ::
  "'w provider \<Rightarrow> gandi_api \<Rightarrow> string option \<Rightarrow> string option \<Rightarrow> string list option
     \<Rightarrow> int option \<Rightarrow> json \<Rightarrow> string option \<Rightarrow> 'w net \<Rightarrow> (error + json) \<times> 'w net" where
  "update_record prov self name type values ttl zone_id domain s =
     (let url = scope_url zone_id domain @ ''/records/'' @ fmt_opt name @ ''/'' @ fmt_opt type;
          new_record = JObj [(''rrset_values'', of_values values), (''rrset_ttl'', of_int_opt ttl)]
      in case gandi_api_call prov self url ''PUT'' (Some new_record) True s of
           (Inl e, s') \<Rightarrow> (Inl e, s')
         | (Inr (record, st), s') \<Rightarrow> (Inr record, s'))"

definition delete_record ::
  "'w provider \<Rightarrow> gandi_api \<Rightarrow> string option \<Rightarrow> string option \<Rightarrow> json \<Rightarrow> string option
     \<Rightarrow> 'w net \<Rightarrow> (error + unit) \<times> 'w net" where
  "delete_record prov self name type zone_id domain s =
     (if self_type self = None \<or> self_record self = None
      then (Inl (FailJson ''You must provide a type and a record to delete a record''), s)
      else if self_values self \<noteq> None
      then (Inl (FailJson ''You cannot provide a value when deleting a record''), s)
      else
        let url = scope_url zone_id domain @ ''/records/'' @ fmt_opt name @ ''/'' @ fmt_opt type
        in case gandi_api_call prov self url ''DELETE'' None True s of
             (Inl e, s') \<Rightarrow> (Inl e, s')
           | (Inr (record, st), s') \<Rightarrow> (Inr (), s'))"

text \<open>\<^verbatim>\<open>if records:\<close> holds for a list that is not empty.\<close>

definition nonempty :: "json list option \<Rightarrow> bool" where
  "nonempty records = (case records of None \<Rightarrow> False | Some rs \<Rightarrow> rs \<noteq> [])"

text \<open>\<^verbatim>\<open>delete_dns_records\<close> returns \<^verbatim>\<open>self.changed\<close>, which starts as \<^verbatim>\<open>False\<close>.\<close>

definition delete_dns_records ::
  "'w provider \<Rightarrow> gandi_api \<Rightarrow> 'w net \<Rightarrow> (error + bool) \<times> 'w net" where
  "delete_dns_records prov self s =
     (case resolve_zone prov self s of
        (Inl e, s1) \<Rightarrow> (Inl e, s1)
      | (Inr zone_id, s1) \<Rightarrow>
          (case get_records prov self (self_record self) (self_type self) zone_id
                  (self_domain self) s1 of
             (Inl e, s2) \<Rightarrow> (Inl e, s2)
           | (Inr records, s2) \<Rightarrow>
               if nonempty records then
                 if \<not> self_check_mode self then
                   (case delete_record prov self (self_record self) (self_type self) zone_id
                           (self_domain self) s2 of
                      (Inl e, s3) \<Rightarrow> (Inl e, s3)
                    | (Inr u, s3) \<Rightarrow> (Inr True, s3))
                 else (Inr True, s2)
               else (Inr False, s2)))"

text \<open>
  The two tests of \<^verbatim>\<open>ensure_dns_record\<close> that set \<^verbatim>\<open>do_update\<close>, in the source's order:
  a field of the record is read only when the parameter is given.
\<close>

definition ttl_differs :: "gandi_api \<Rightarrow> json \<Rightarrow> error + bool" where
  "ttl_differs self record =
     (case self_ttl self of
        None \<Rightarrow> Inr False
      | Some t \<Rightarrow>
          (case py_getitem record ''rrset_ttl'' of
             Inl e \<Rightarrow> Inl e
           | Inr v \<Rightarrow> Inr (v \<noteq> JInt t)))"

definition values_differ :: "gandi_api \<Rightarrow> json \<Rightarrow> error + bool" where
  "values_differ self record =
     (case self_values self of
        None \<Rightarrow> Inr False
      | Some vs \<Rightarrow>
          (case py_getitem record ''rrset_values'' of
             Inl e \<Rightarrow> Inl e
           | Inr v \<Rightarrow>
               (case py_set v of
                  Inl e \<Rightarrow> Inl e
                | Inr ws \<Rightarrow> Inr (ws \<noteq> set (map JStr vs)))))"

definition do_update :: "gandi_api \<Rightarrow> json \<Rightarrow> error + bool" where
  "do_update self record =
     (case ttl_differs self record of
        Inl e \<Rightarrow> Inl e
      | Inr a \<Rightarrow>
          (case values_differ self record of
             Inl e \<Rightarrow> Inl e
           | Inr b \<Rightarrow> Inr (a \<or> b)))"

text \<open>\<^verbatim>\<open>records[0]\<close> on the result of \<^verbatim>\<open>get_records\<close>.\<close>

definition first_record :: "json list option \<Rightarrow> error + json" where
  "first_record records =
     (case records of
        None \<Rightarrow> Inl (PyException ''TypeError'')
      | Some [] \<Rightarrow> Inl (PyException ''IndexError'')
      | Some (r # rs) \<Rightarrow> Inr r)"

definition ensure_dns_record ::
  "'w provider \<Rightarrow> gandi_api \<Rightarrow> 'w net \<Rightarrow> (error + json \<times> bool) \<times> 'w net" where
  "ensure_dns_record prov self s =
     (let new_record = JObj [(''type'', of_str (self_type self)), (''name'', of_str (self_record self)),
                             (''values'', of_values (self_values self)),
                             (''ttl'', of_int_opt (self_ttl self))]
      in case resolve_zone prov self s of
        (Inl e, s1) \<Rightarrow> (Inl e, s1)
      | (Inr zone_id, s1) \<Rightarrow>
          (case get_records prov self (self_record self) (self_type self) zone_id
                  (self_domain self) s1 of
             (Inl e, s2) \<Rightarrow> (Inl e, s2)
           | (Inr records, s2) \<Rightarrow>
               if nonempty records then
                 (case first_record records of
                    Inl e \<Rightarrow> (Inl e, s2)
                  | Inr record \<Rightarrow>
                      (case do_update self record of
                         Inl e \<Rightarrow> (Inl e, s2)
                       | Inr True \<Rightarrow>
                           if self_check_mode self then (Inr (new_record, True), s2)
                           else
                             (case update_record prov self (self_record self) (self_type self)
                                     (self_values self) (self_ttl self) zone_id
                                     (self_domain self) s2 of
                                (Inl e, s3) \<Rightarrow> (Inl e, s3)
                              | (Inr u, s3) \<Rightarrow>
                                  (case get_records prov self (self_record self) (self_type self)
                                          zone_id (self_domain self) s3 of
                                     (Inl e, s4) \<Rightarrow> (Inl e, s4)
                                   | (Inr records', s4) \<Rightarrow>
                                       (case first_record records' of
                                          Inl e \<Rightarrow> (Inl e, s4)
                                        | Inr result \<Rightarrow> (Inr (result, True), s4))))
                       | Inr False \<Rightarrow> (Inr (record, False), s2)))
               else if self_check_mode self then (Inr (new_record, True), s2)
               else
                 (case create_record prov self (self_record self) (self_type self)
                         (self_values self) (self_ttl self) zone_id (self_domain self) s2 of
                    (Inl e, s3) \<Rightarrow> (Inl e, s3)
                  | (Inr result, s3) \<Rightarrow> (Inr (result, True), s3))))"

text \<open>The arguments of \<^verbatim>\<open>module.exit_json\<close>; \<open>ex_result\<close> is absent on deletion.\<close>

record exit_json =
  ex_changed :: bool
  ex_result :: "json option"

definition main :: "'w provider \<Rightarrow> module \<Rightarrow> 'w net \<Rightarrow> (error + exit_json) \<times> 'w net" where
  "main prov m s =
     (if \<not> truthy_str (p_zone m) \<and> \<not> truthy_str (p_domain m)
      then (Inl (FailJson ''At least one of zone and domain parameters need to be defined.''), s)
      else
        let gandi = GandiAPI m
        in if self_state gandi = ''present'' then
             (case ensure_dns_record prov gandi s of
                (Inl e, s') \<Rightarrow> (Inl e, s')
              | (Inr (result, changed), s') \<Rightarrow>
                  (case build_result gandi result of
                     Inl e \<Rightarrow> (Inl e, s')
                   | Inr r \<Rightarrow>
                       (Inr \<lparr>ex_changed = changed, ex_result = Some (JObj [(''record'', r)])\<rparr>, s')))
           else
             (case delete_dns_records prov gandi s of
                (Inl e, s') \<Rightarrow> (Inl e, s')
              | (Inr changed, s') \<Rightarrow> (Inr \<lparr>ex_changed = changed, ex_result = None\<rparr>, s')))"

section \<open>The facts module \<^verbatim>\<open>gandi_livedns_facts\<close>\<close>

text \<open>
  The second file defines its own \<^verbatim>\<open>GandiAPI\<close> class with the same method names; its
  definitions carry the prefix \<open>facts\<close>.
\<close>

record facts_module =
  fp_api_key :: string
  fp_record :: "string option"
  fp_type :: "string option"
  fp_zone :: "string option"
  fp_domain :: "string option"

record facts_api =
  fself_api_key :: string
  fself_record :: "string option"
  fself_type :: "string option"
  fself_zone :: "string option"
  fself_domain :: "string option"

definition facts_error_strings :: "(int \<times> string) list" where
  "facts_error_strings = [(401, ''Permission denied''), (404, ''Resource not found'')]"

definition facts_GandiAPI :: "facts_module \<Rightarrow> facts_api" where
  "facts_GandiAPI m =
     \<lparr>fself_api_key = fp_api_key m,
      fself_record = lowercase_string (fp_record m),
      fself_type = fp_type m,
      fself_zone = fp_zone m,
      fself_domain = lowercase_string (fp_domain m)\<rparr>"

text \<open>
  \<^verbatim>\<open>_gandi_api_call\<close> of the facts module: the parameter \<^verbatim>\<open>error_on_404\<close> is accepted and
  the test of the status does not read it.
\<close>

definition facts_gandi_api_call ::
  "'w provider \<Rightarrow> facts_api \<Rightarrow> string \<Rightarrow> string \<Rightarrow> json option \<Rightarrow> bool \<Rightarrow> 'w net
     \<Rightarrow> (error + json \<times> int) \<times> 'w net" where
  "facts_gandi_api_call prov self api_call method payload error_on_404 s =
     (let headers = [(''X-Api-Key'', fself_api_key self), (''Content-Type'', ''application/json'')];
          data = (case payload of None \<Rightarrow> None | Some p \<Rightarrow> if truthy p then Some p else None)
      in case fetch_url prov
                \<lparr>req_url = api_endpoint @ api_call, req_headers = headers,
                 req_data = data, req_method = method\<rparr> s of
        (resp, s') \<Rightarrow>
          let error_msg =
                (if status resp \<ge> 400
                 then ''API error '' @ (case map_of facts_error_strings (status resp) of
                                          None \<Rightarrow> '''' | Some l \<Rightarrow> l)
                      @ ''; Status: '' @ str_int (status resp)
                      @ ''; Method: '' @ method @ '': Call: '' @ api_call
                 else '''');
              result = (case content resp of Parsed j \<Rightarrow> j | _ \<Rightarrow> JNull);
              error_msg2 =
                (case content resp of
                   Unparsable e c \<Rightarrow>
                     error_msg @ ''; Failed to parse API response with error '' @ e @ '': '' @ c
                 | _ \<Rightarrow> error_msg)
          in if error_msg2 \<noteq> [] then (Inl (FailJson error_msg2), s')
             else (Inr (result, status resp), s'))"

definition facts_build_one :: "facts_api \<Rightarrow> json \<Rightarrow> error + json" where
  "facts_build_one self res =
     (case res of
        JObj kvs \<Rightarrow>
          Inr (JObj (build_fields [''name'', ''type'', ''ttl'', ''values''] kvs
                     @ (if truthy_str (fself_zone self) then [(''zone'', of_str (fself_zone self))]
                        else [(''domain'', of_str (fself_domain self))])))
      | _ \<Rightarrow> Inl (PyException ''AttributeError''))"

fun facts_build_list :: "facts_api \<Rightarrow> json list \<Rightarrow> error + json list" where
  "facts_build_list self [] = Inr []"
| "facts_build_list self (res # rest) =
     (case facts_build_one self res of
        Inl e \<Rightarrow> Inl e
      | Inr d \<Rightarrow>
          (case facts_build_list self rest of
             Inl e \<Rightarrow> Inl e
           | Inr ds \<Rightarrow> Inr (d # ds)))"

definition build_results :: "facts_api \<Rightarrow> json list option \<Rightarrow> error + json" where
  "build_results self results =
     (case results of
        None \<Rightarrow> Inr JNull
      | Some rs \<Rightarrow> (case facts_build_list self rs of Inl e \<Rightarrow> Inl e | Inr ds \<Rightarrow> Inr (JArr ds)))"

definition facts_get_zones :: "'w provider \<Rightarrow> facts_api \<Rightarrow> 'w net \<Rightarrow> (error + json) \<times> 'w net" where
  "facts_get_zones prov self s =
     (case facts_gandi_api_call prov self ''/zones'' ''GET'' None True s of
        (Inl e, s') \<Rightarrow> (Inl e, s')
      | (Inr (zones, st), s') \<Rightarrow> (Inr zones, s'))"

definition facts_get_zone_id ::
  "'w provider \<Rightarrow> facts_api \<Rightarrow> string \<Rightarrow> 'w net \<Rightarrow> (error + json) \<times> 'w net" where
  "facts_get_zone_id prov self zone_name s =
     (case facts_get_zones prov self s of
        (Inl e, s') \<Rightarrow> (Inl e, s')
      | (Inr zones, s') \<Rightarrow>
          (case py_iter zones of
             Inl e \<Rightarrow> (Inl e, s')
           | Inr zs \<Rightarrow> (zone_scan zs zone_name, s')))"

definition facts_get_records ::
  "'w provider \<Rightarrow> facts_api \<Rightarrow> string option \<Rightarrow> string option \<Rightarrow> json \<Rightarrow> string option
     \<Rightarrow> 'w net \<Rightarrow> (error + json list option) \<times> 'w net" where
  "facts_get_records prov self name type zone_id domain s =
     (case facts_gandi_api_call prov self (records_url name type zone_id domain) ''GET'' None False s of
        (Inl e, s') \<Rightarrow> (Inl e, s')
      | (Inr (records, st), s') \<Rightarrow>
          if st = 404 then (Inr None, s')
          else
            let recs = (case records of JArr xs \<Rightarrow> xs | _ \<Rightarrow> [records])
            in if \<not> truthy_str name \<and> truthy_str type
               then (case filter_type recs (fmt_opt type) of
                       Inl e \<Rightarrow> (Inl e, s')
                     | Inr rs \<Rightarrow> (Inr (Some rs), s'))
               else (Inr (Some recs), s'))"

definition get_dns_records ::
  "'w provider \<Rightarrow> facts_api \<Rightarrow> 'w net \<Rightarrow> (error + json list option) \<times> 'w net" where
  "get_dns_records prov self s =
     (case (if truthy_str (fself_zone self)
            then facts_get_zone_id prov self (fmt_opt (fself_zone self)) s
            else (Inr JNull, s)) of
        (Inl e, s1) \<Rightarrow> (Inl e, s1)
      | (Inr zone_id, s1) \<Rightarrow>
          facts_get_records prov self (fself_record self) (fself_type self) zone_id
            (fself_domain self) s1)"

text \<open>\<^verbatim>\<open>main\<close> of the facts module: the arguments of its only \<^verbatim>\<open>exit_json\<close>.\<close>

record facts_exit =
  fx_changed :: bool
  fx_ansible_facts :: json

definition facts_main ::
  "'w provider \<Rightarrow> facts_module \<Rightarrow> 'w net \<Rightarrow> (error + facts_exit) \<times> 'w net" where
  "facts_main prov m s =
     (if \<not> truthy_str (fp_zone m) \<and> \<not> truthy_str (fp_domain m)
      then (Inl (FailJson ''At least one of zone and domain parameters need to be defined.''), s)
      else
        let gandi = facts_GandiAPI m
        in case get_dns_records prov gandi s of
             (Inl e, s') \<Rightarrow> (Inl e, s')
           | (Inr results, s') \<Rightarrow>
               (case build_results gandi results of
                  Inl e \<Rightarrow> (Inl e, s')
                | Inr rs \<Rightarrow>
                    (Inr \<lparr>fx_changed = False,
                          fx_ansible_facts =
                            JObj [(''gandi_livedns_facts'', JObj [(''records'', rs)])]\<rparr>, s')))"

section \<open>What the proofs observe\<close>

text \<open>
  The request \<^verbatim>\<open>_gandi_api_call\<close> hands to \<^verbatim>\<open>fetch_url\<close> (both modules build the same one).
\<close>

definition api_request :: "string \<Rightarrow> string \<Rightarrow> string \<Rightarrow> json option \<Rightarrow> request" where
  "api_request key api_call method payload =
     \<lparr>req_url = api_endpoint @ api_call,
      req_headers = [(''X-Api-Key'', key), (''Content-Type'', ''application/json'')],
      req_data = (case payload of None \<Rightarrow> None | Some p \<Rightarrow> if truthy p then Some p else None),
      req_method = method\<rparr>"

text \<open>
  Between two network states only \<^verbatim>\<open>GET\<close> requests were sent: the earlier requests
  are a prefix of the later ones and every request after them is a \<^verbatim>\<open>GET\<close>.
\<close>

definition reads_only :: "'w net \<Rightarrow> 'w net \<Rightarrow> bool" where
  "reads_only s s' =
     (take (length (sent s)) (sent s') = sent s
      \<and> list_all (\<lambda>rq. req_method rq = ''GET'') (drop (length (sent s)) (sent s')))"

text \<open>The body of a response parses (or is empty), and the value \<^verbatim>\<open>_gandi_api_call\<close> returns for it.\<close>

definition parses :: "response \<Rightarrow> bool" where
  "parses resp = (case content resp of Unparsable e c \<Rightarrow> False | _ \<Rightarrow> True)"

definition body :: "response \<Rightarrow> json" where
  "body resp = (case content resp of Parsed j \<Rightarrow> j | _ \<Rightarrow> JNull)"




section \<open>Example inputs\<close>

text \<open>
  A network on which nothing was sent yet, a provider that answers the listed requests
  (method and URL) and answers 404 with an empty body to every other one, and the
  parameters of the first example of the module's documentation.
\<close>

definition start :: "unit net" where
  "start = \<lparr>world = (), sent = []\<rparr>"

definition table_provider :: "((string \<times> string) \<times> response) list \<Rightarrow> unit provider" where
  "table_provider tbl w rq =
     (case map_of tbl (req_method rq, req_url rq) of
        None \<Rightarrow> (\<lparr>status = 404, content = NoContent\<rparr>, w)
      | Some resp \<Rightarrow> (resp, w))"

definition base_module :: module where
  "base_module =
     \<lparr>p_api_key = ''dummyapitoken'', p_record = Some ''test'', p_state = ''present'',
      p_ttl = Some 10800, p_type = Some ''A'', p_values = Some [''127.0.0.1''],
      p_zone = None, p_domain = Some ''my.com'', check_mode = False\<rparr>"

text \<open>A provider that answers the creation of a record with 200 instead of 201.\<close>

definition created_elsewhere :: "unit provider" where
  "created_elsewhere =
     table_provider
       [((''POST'', ''https://dns.api.gandi.net/api/v5/domains/my.com/records''),
         \<lparr>status = 200, content = Parsed (JObj [(''message'', JStr ''DNS Record Created'')])\<rparr>)]"

text \<open>
  A provider with no record at all, a provider that rejects every request with 400, the
  parameters of the first example of the facts module's documentation, a record set as
  the provider returns it, and a provider with one zone \<^verbatim>\<open>my.com\<close> holding that record.
\<close>

definition no_records :: "unit provider" where
  "no_records = table_provider []"

definition bad_request :: "unit provider" where
  "bad_request w rq = (\<lparr>status = 400, content = NoContent\<rparr>, w)"

definition facts_base :: facts_module where
  "facts_base =
     \<lparr>fp_api_key = ''dummyapitoken'', fp_record = Some ''test'', fp_type = Some ''A'',
      fp_zone = None, fp_domain = Some ''my.com''\<rparr>"

definition test_record :: json where
  "test_record = JObj [(''rrset_name'', JStr ''test''), (''rrset_type'', JStr ''A''),
                       (''rrset_ttl'', JInt 10800), (''rrset_values'', JArr [JStr ''127.0.0.1''])]"

definition zone_with_record :: "unit provider" where
  "zone_with_record =
     table_provider
       [((''GET'', ''https://dns.api.gandi.net/api/v5/zones''),
         \<lparr>status = 200,
          content = Parsed (JArr [JObj [(''name'', JStr ''my.com''), (''uuid'', JStr ''zone-uuid'')]])\<rparr>),
        ((''GET'', ''https://dns.api.gandi.net/api/v5/zones/zone-uuid/records/test/A''),
         \<lparr>status = 200, content = Parsed test_record\<rparr>)]"

text \<open>
  A record set with two values, a provider holding it under the domain \<^verbatim>\<open>my.com\<close>, the
  network after the lookup of that record, and variations of the example parameters:
  the two values wanted in the other order, deletion without and with values, and a
  zone added to the domain.
\<close>

definition two_values_fields :: "(string \<times> json) list" where
  "two_values_fields =
     [(''rrset_name'', JStr ''test''), (''rrset_type'', JStr ''A''), (''rrset_ttl'', JInt 10800),
      (''rrset_values'', JArr [JStr ''192.0.2.92'', JStr ''192.0.2.91''])]"

definition domain_with_record :: "unit provider" where
  "domain_with_record =
     table_provider
       [((''GET'', ''https://dns.api.gandi.net/api/v5/domains/my.com/records/test/A''),
         \<lparr>status = 200, content = Parsed (JObj two_values_fields)\<rparr>)]"

definition after_lookup :: "unit net" where
  "after_lookup =
     \<lparr>world = (),
      sent = [api_request ''dummyapitoken'' ''/domains/my.com/records/test/A'' ''GET'' None]\<rparr>"

definition reordered_module :: module where
  "reordered_module = base_module\<lparr>p_values := Some [''192.0.2.91'', ''192.0.2.92'']\<rparr>"

definition absent_module :: module where
  "absent_module = base_module\<lparr>p_state := ''absent'', p_values := None\<rparr>"

definition absent_with_values :: module where
  "absent_with_values = base_module\<lparr>p_state := ''absent''\<rparr>"

definition zoned_module :: module where
  "zoned_module = base_module\<lparr>p_zone := Some ''my.com''\<rparr>"

definition facts_zoned :: facts_module where
  "facts_zoned = facts_base\<lparr>fp_zone := Some ''my.com'', fp_domain := None\<rparr>"

text \<open>
  A provider that lists the zone \<^verbatim>\<open>my.com\<close> under an empty identifier and holds the record
  under the domain \<^verbatim>\<open>example.org\<close>, a provider that answers every request with 500, the
  example parameters with both a zone and a domain, the network after the zone listing,
  the zone \<^verbatim>\<open>my.com\<close> as the provider lists it, the example parameters with the zone
  written \<^verbatim>\<open>My.com\<close>, and a deletion with values in check mode.
\<close>

definition zone_with_empty_id :: "unit provider" where
  "zone_with_empty_id =
     table_provider
       [((''GET'', ''https://dns.api.gandi.net/api/v5/zones''),
         \<lparr>status = 200,
          content = Parsed (JArr [JObj [(''name'', JStr ''my.com''), (''uuid'', JStr [])]])\<rparr>),
        ((''GET'', ''https://dns.api.gandi.net/api/v5/domains/example.org/records/test/A''),
         \<lparr>status = 200, content = Parsed test_record\<rparr>)]"

definition server_error :: "unit provider" where
  "server_error w rq = (\<lparr>status = 500, content = NoContent\<rparr>, w)"

definition both_module :: module where
  "both_module = base_module\<lparr>p_zone := Some ''my.com'', p_domain := Some ''example.org''\<rparr>"


definition my_zone :: json where
  "my_zone = JObj [(''name'', JStr ''my.com''), (''uuid'', JStr ''zone-uuid'')]"

definition mixed_case_module :: module where
  "mixed_case_module = base_module\<lparr>p_zone := Some ''My.com'', p_domain := None\<rparr>"

definition check_absent_with_values :: module where
  "check_absent_with_values = absent_with_values\<lparr>check_mode := True\<rparr>"

section \<open>The requests a call sends\<close>

lemma reads_only_refl: "reads_only s s"
  by (simp add: reads_only_def)

lemma reads_onlyI:
  "sent s' = sent s @ xs \<Longrightarrow> list_all (\<lambda>rq. req_method rq = ''GET'') xs \<Longrightarrow> reads_only s s'"
  by (simp add: reads_only_def)

lemma reads_onlyD:
  "reads_only s s' \<Longrightarrow> \<exists>xs. sent s' = sent s @ xs \<and> list_all (\<lambda>rq. req_method rq = ''GET'') xs"
  unfolding reads_only_def
  by (rule exI [of _ "drop (length (sent s)) (sent s')"]) (metis append_take_drop_id)

lemma reads_only_trans: "reads_only s s1 \<Longrightarrow> reads_only s1 s2 \<Longrightarrow> reads_only s s2"
proof -
  assume a: "reads_only s s1" and b: "reads_only s1 s2"
  obtain xs where xs: "sent s1 = sent s @ xs" "list_all (\<lambda>rq. req_method rq = ''GET'') xs"
    using reads_onlyD [OF a] by blast
  obtain ys where ys: "sent s2 = sent s1 @ ys" "list_all (\<lambda>rq. req_method rq = ''GET'') ys"
    using reads_onlyD [OF b] by blast
  show ?thesis
    by (rule reads_onlyI [of _ _ "xs @ ys"]) (simp_all add: xs ys)
qed

lemma get_not_mutating: "req_method rq = ''GET'' \<Longrightarrow> \<not> mutating rq"
  by (simp add: mutating_def)

lemma reads_only_mutating:
  "reads_only s s' \<Longrightarrow> filter mutating (sent s') = filter mutating (sent s)"
proof -
  assume a: "reads_only s s'"
  obtain xs where xs: "sent s' = sent s @ xs" "list_all (\<lambda>rq. req_method rq = ''GET'') xs"
    using reads_onlyD [OF a] by blast
  have "filter mutating xs = []"
    using xs(2) by (induction xs) (simp_all add: get_not_mutating)
  then show ?thesis using xs(1) by simp
qed

lemma fetch_url_sent: "sent (snd (fetch_url prov rq s)) = sent s @ [rq]"
  by (simp add: fetch_url_def split: prod.splits)

lemma gandi_api_call_state:
  "snd (gandi_api_call prov self c m p e s) = snd (fetch_url prov (api_request (self_api_key self) c m p) s)"
  by (simp add: gandi_api_call_def api_request_def Let_def split: prod.splits)

lemma gandi_api_call_sent:
  "sent (snd (gandi_api_call prov self c m p e s)) = sent s @ [api_request (self_api_key self) c m p]"
  by (simp add: gandi_api_call_state fetch_url_sent)

lemma gandi_api_call_reads:
  "gandi_api_call prov self c ''GET'' p e s = (r, s') \<Longrightarrow> reads_only s s'"
proof -
  assume a: "gandi_api_call prov self c ''GET'' p e s = (r, s')"
  have "sent s' = sent s @ [api_request (self_api_key self) c ''GET'' p]"
    using gandi_api_call_sent [of prov self c "''GET''" p e s] a by simp
  then show ?thesis
    by (rule reads_onlyI) (simp add: api_request_def)
qed

lemma get_zone_id_reads: "get_zone_id prov self z s = (r, s') \<Longrightarrow> reads_only s s'"
  unfolding get_zone_id_def get_zones_def
  by (auto split: prod.splits sum.splits dest: gandi_api_call_reads)

lemma resolve_zone_reads: "resolve_zone prov self s = (r, s') \<Longrightarrow> reads_only s s'"
  unfolding resolve_zone_def
  by (auto split: if_splits dest: get_zone_id_reads simp: reads_only_refl)

lemma get_records_reads: "get_records prov self n t z d s = (r, s') \<Longrightarrow> reads_only s s'"
  unfolding get_records_def Let_def
  by (auto split: prod.splits sum.splits if_splits dest: gandi_api_call_reads)

lemma gandi_api_call_ok:
  assumes "fst (prov (world s) (api_request (self_api_key self) c m p)) = resp"
    and "status resp < 400 \<or> (status resp = 404 \<and> \<not> e)" and "parses resp"
  shows "fst (gandi_api_call prov self c m p e s) = Inr (body resp, status resp)"
  using assms
  by (auto simp: gandi_api_call_def api_request_def fetch_url_def Let_def parses_def body_def
      split: prod.splits content.splits)

lemma str_int_404: "str_int 404 = ''404''"
  by code_simp

section \<open>Creating a record\<close>

text \<open>
  C5. \<^verbatim>\<open>create_record\<close> sends one POST. Whenever the provider's answer to it does not make
  the call fail (a status below 400 and a body that parses), the result is the record
  built from the arguments when the status is 201 and \<^verbatim>\<open>None\<close> for every other status;
  so the constructed record comes back if and only if the status is 201.
\<close>

theorem create_record_201:
  assumes nr: "new_record = JObj [(''rrset_name'', of_str name), (''rrset_type'', of_str type),
                             (''rrset_values'', of_values values), (''rrset_ttl'', of_int_opt ttl)]"
    and resp: "fst (prov (world s) (api_request (self_api_key self)
                 (scope_url zone_id domain @ ''/records'') ''POST'' (Some new_record))) = resp"
    and ok: "status resp < 400" "parses resp"
  shows "fst (create_record prov self name type values ttl zone_id domain s)
           = Inr (if status resp = 201 then new_record else JNull)
         \<and> (fst (create_record prov self name type values ttl zone_id domain s) = Inr new_record
              \<longleftrightarrow> status resp = 201)"
proof -
  have call: "fst (gandi_api_call prov self (scope_url zone_id domain @ ''/records'') ''POST''
                (Some new_record) True s) = Inr (body resp, status resp)"
    using resp ok by (intro gandi_api_call_ok) simp_all
  have a: "fst (create_record prov self name type values ttl zone_id domain s)
           = Inr (if status resp = 201 then new_record else JNull)"
    using call unfolding create_record_def Let_def nr [symmetric]
    by (auto split: prod.splits sum.splits)
  have b: "fst (create_record prov self name type values ttl zone_id domain s) = Inr new_record
           \<longleftrightarrow> status resp = 201"
    unfolding a using nr by auto
  show ?thesis using a b by blast
qed

text \<open>
  The theorem at a provider that answers the POST with 200 and a JSON message: the call
  does not fail and \<^verbatim>\<open>create_record\<close> returns \<^verbatim>\<open>None\<close>.
\<close>

theorem create_record_201_witness:
  "status \<lparr>status = 200, content = Parsed (JObj [(''message'', JStr ''DNS Record Created'')])\<rparr> < 400
   \<and> parses \<lparr>status = 200, content = Parsed (JObj [(''message'', JStr ''DNS Record Created'')])\<rparr>
   \<and> fst (create_record created_elsewhere (GandiAPI base_module) (Some ''test'') (Some ''A'')
             (Some [''127.0.0.1'']) (Some 10800) JNull (Some ''my.com'') start) = Inr JNull"
proof -
  let ?resp = "\<lparr>status = 200, content = Parsed (JObj [(''message'', JStr ''DNS Record Created'')])\<rparr>"
  let ?nr = "JObj [(''rrset_name'', of_str (Some ''test'')), (''rrset_type'', of_str (Some ''A'')),
                   (''rrset_values'', of_values (Some [''127.0.0.1''])),
                   (''rrset_ttl'', of_int_opt (Some 10800))]"
  have h1: "fst (created_elsewhere (world start) (api_request (self_api_key (GandiAPI base_module))
                 (scope_url JNull (Some ''my.com'') @ ''/records'') ''POST'' (Some ?nr))) = ?resp"
    by code_simp
  have h2: "status ?resp < 400" by simp
  have h3: "parses ?resp" by (simp add: parses_def)
  show ?thesis
    using create_record_201 [where prov = created_elsewhere and s = start
        and self = "GandiAPI base_module" and zone_id = JNull and domain = "Some ''my.com''"
        and new_record = ?nr and resp = ?resp, OF refl h1 h2 h3] h2 h3
    by simp
qed

section \<open>Check mode\<close>

text \<open>
  C1. In check mode, with no record at the provider, a present-intent invocation
  reports \<^verbatim>\<open>changed=true\<close> and sends only the lookup \<^verbatim>\<open>GET\<close>, but the record returned to
  the caller holds the scope label alone: \<^verbatim>\<open>ensure_dns_record\<close> builds the would-be record
  with the keys \<^verbatim>\<open>type\<close>, \<^verbatim>\<open>name\<close>, \<^verbatim>\<open>values\<close>, \<^verbatim>\<open>ttl\<close>, and \<^verbatim>\<open>build_result\<close> reads the keys
  \<^verbatim>\<open>rrset_type\<close>, \<^verbatim>\<open>rrset_name\<close>, \<^verbatim>\<open>rrset_values\<close>, \<^verbatim>\<open>rrset_ttl\<close>, so the desired name, type,
  ttl and values are all dropped.
\<close>

theorem check_mode_create_drops_fields:
  "argument_spec_ok (base_module\<lparr>check_mode := True\<rparr>)
   \<and> main no_records (base_module\<lparr>check_mode := True\<rparr>) start
       = (Inr \<lparr>ex_changed = True,
               ex_result = Some (JObj [(''record'', JObj [(''domain'', JStr ''my.com'')])])\<rparr>,
          \<lparr>world = (),
           sent = [api_request ''dummyapitoken'' ''/domains/my.com/records/test/A'' ''GET'' None]\<rparr>)"
  by code_simp

section \<open>A lookup answered with 404\<close>

text \<open>
  C2. A lookup by name answered with 404: the facts module fails the invocation with an
  API error, since its \<^verbatim>\<open>_gandi_api_call\<close> does not read \<^verbatim>\<open>error_on_404\<close>; the same lookup in
  the management module returns \<^verbatim>\<open>None\<close>, the record being absent.
\<close>

theorem facts_lookup_404_fails:
  "fst (facts_main no_records facts_base start)
     = Inl (FailJson ''API error Resource not found; Status: 404; Method: GET: Call: /domains/my.com/records/test/A'')
   \<and> fst (get_records no_records (GandiAPI base_module) (Some ''test'') (Some ''A'') JNull
            (Some ''my.com'') start) = Inr None"
  by code_simp

section \<open>Labels of API errors\<close>

text \<open>
  C6. A request answered with 400: the error of the facts module carries the empty label,
  its table having no entry for 400; the error of the management module carries
  \<^verbatim>\<open>Bad request\<close>.
\<close>

theorem facts_label_400_empty:
  "fst (facts_main bad_request facts_base start)
     = Inl (FailJson ''API error ; Status: 400; Method: GET: Call: /domains/my.com/records/test/A'')
   \<and> fst (main bad_request base_module start)
     = Inl (FailJson ''API error Bad request; Status: 400; Method: GET: Call: /domains/my.com/records/test/A'')"
  by code_simp

section \<open>Fields of the object and independence of the domain\<close>

lemma GandiAPI_fields:
  "self_api_key (GandiAPI m) = p_api_key m"
  "self_record (GandiAPI m) = lowercase_string (p_record m)"
  "self_state (GandiAPI m) = p_state m"
  "self_ttl (GandiAPI m) = p_ttl m"
  "self_type (GandiAPI m) = p_type m"
  "self_values (GandiAPI m) = p_values m"
  "self_zone (GandiAPI m) = p_zone m"
  "self_domain (GandiAPI m) = lowercase_string (p_domain m)"
  "self_check_mode (GandiAPI m) = check_mode m"
  by (simp_all add: GandiAPI_def)

lemma lowercase_string_None: "lowercase_string p = None \<longleftrightarrow> p = None"
  by (simp add: lowercase_string_def split: option.splits)

lemma build_result_obj:
  "build_result self (JObj kvs) =
     Inr (JObj (build_fields [''name'', ''type'', ''ttl'', ''values''] kvs
                @ (if truthy_str (self_zone self) then [(''zone'', of_str (self_zone self))]
                   else [(''domain'', of_str (self_domain self))])))"
  by (simp add: build_result_def)

















section \<open>Requests under a zone\<close>
















section \<open>The zone name is compared as it was given\<close>

lemma zone_scan_found:
  "zone_scan zs z = Inr uuid \<Longrightarrow>
     \<exists>obj \<in> set zs. py_getitem obj ''name'' = Inr (JStr z) \<and> py_getitem obj ''uuid'' = Inr uuid"
  by (induction zs) (auto split: sum.splits if_splits)

lemma zone_scan_not_found:
  "\<forall>obj \<in> set zs. \<exists>n. py_getitem obj ''name'' = Inr n \<and> n \<noteq> JStr z \<Longrightarrow>
     zone_scan zs z = Inl (FailJson (''No zone found with name '' @ z))"
  by (induction zs) (auto split: sum.splits)

lemma main_zone_not_found:
  assumes z: "p_zone m = Some z" and ne: "z \<noteq> []"
    and zones: "fst (get_zones prov (GandiAPI m) s) = Inr (JArr zs)"
    and names: "\<forall>obj \<in> set zs. \<exists>n. py_getitem obj ''name'' = Inr n \<and> n \<noteq> JStr z"
  shows "fst (main prov m s) = Inl (FailJson (''No zone found with name '' @ z))"
proof -
  obtain s1 where g: "get_zones prov (GandiAPI m) s = (Inr (JArr zs), s1)"
    using zones by (cases "get_zones prov (GandiAPI m) s") simp
  have r: "resolve_zone prov (GandiAPI m) s
             = (Inl (FailJson (''No zone found with name '' @ z)), s1)"
    using z ne g zone_scan_not_found [OF names]
    by (simp add: resolve_zone_def get_zone_id_def GandiAPI_fields truthy_str_def fmt_opt_def)
  show ?thesis
    using z ne r
    by (simp add: main_def Let_def ensure_dns_record_def delete_dns_records_def truthy_str_def
        GandiAPI_fields)
qed

text \<open>
  C10. \<^verbatim>\<open>__init__\<close> lowercases the record name and the domain and keeps the zone as it
  was given; \<^verbatim>\<open>_get_zone_id\<close> compares it with the provider's zone names for equality. An
  identifier the loop returns is the \<^verbatim>\<open>uuid\<close> of a listed zone whose name is exactly the
  string given; when every listed zone has another name, the loop, and with it the
  invocation whose zone parameter is that string, ends with the failure that no zone was
  found. With the zone \<^verbatim>\<open>my.com\<close> at the provider, the parameter \<^verbatim>\<open>My.com\<close> (whose lowercase
  form is the provider's name) ends the invocation with that failure, while the parameter
  \<^verbatim>\<open>my.com\<close> succeeds.
\<close>

theorem zone_case_sensitive:
  "self_zone (GandiAPI m) = p_zone m
   \<and> self_record (GandiAPI m) = lowercase_string (p_record m)
   \<and> self_domain (GandiAPI m) = lowercase_string (p_domain m)
   \<and> (zone_scan zs z = Inr uuid \<longrightarrow>
        (\<exists>obj \<in> set zs. py_getitem obj ''name'' = Inr (JStr z)
                          \<and> py_getitem obj ''uuid'' = Inr uuid))
   \<and> ((\<forall>obj \<in> set zs. \<exists>n. py_getitem obj ''name'' = Inr n \<and> n \<noteq> JStr z) \<longrightarrow>
        zone_scan zs z = Inl (FailJson (''No zone found with name '' @ z))
        \<and> (p_zone m = Some z \<and> z \<noteq> [] \<and> fst (get_zones prov (GandiAPI m) s) = Inr (JArr zs) \<longrightarrow>
             fst (main prov m s) = Inl (FailJson (''No zone found with name '' @ z))))
   \<and> lowercase_string (Some ''My.com'') = Some ''my.com''
   \<and> fst (main zone_with_record (base_module\<lparr>p_zone := Some ''My.com'', p_domain := None\<rparr>) start)
       = Inl (FailJson ''No zone found with name My.com'')
   \<and> fst (main zone_with_record (base_module\<lparr>p_zone := Some ''my.com'', p_domain := None\<rparr>) start)
       = Inr \<lparr>ex_changed = False,
              ex_result = Some (JObj [(''record'',
                JObj [(''name'', JStr ''test''), (''type'', JStr ''A''), (''ttl'', JInt 10800),
                      (''values'', JArr [JStr ''127.0.0.1'']), (''zone'', JStr ''my.com'')])])\<rparr>"
proof -
  have a: "self_zone (GandiAPI m) = p_zone m \<and> self_record (GandiAPI m) = lowercase_string (p_record m)
   \<and> self_domain (GandiAPI m) = lowercase_string (p_domain m)"
    by (simp add: GandiAPI_def)
  have f: "zone_scan zs z = Inr uuid \<longrightarrow>
        (\<exists>obj \<in> set zs. py_getitem obj ''name'' = Inr (JStr z)
                          \<and> py_getitem obj ''uuid'' = Inr uuid)"
    using zone_scan_found [of zs z uuid] by blast
  have n: "(\<forall>obj \<in> set zs. \<exists>n. py_getitem obj ''name'' = Inr n \<and> n \<noteq> JStr z) \<longrightarrow>
        zone_scan zs z = Inl (FailJson (''No zone found with name '' @ z))
        \<and> (p_zone m = Some z \<and> z \<noteq> [] \<and> fst (get_zones prov (GandiAPI m) s) = Inr (JArr zs) \<longrightarrow>
             fst (main prov m s) = Inl (FailJson (''No zone found with name '' @ z)))"
    using zone_scan_not_found [of zs z] main_zone_not_found [of m z prov s zs] by blast
  have b: "lowercase_string (Some ''My.com'') = Some ''my.com''" by code_simp
  have c: "fst (main zone_with_record (base_module\<lparr>p_zone := Some ''My.com'', p_domain := None\<rparr>) start)
       = Inl (FailJson ''No zone found with name My.com'')" by code_simp
  have d: "fst (main zone_with_record (base_module\<lparr>p_zone := Some ''my.com'', p_domain := None\<rparr>) start)
       = Inr \<lparr>ex_changed = False,
              ex_result = Some (JObj [(''record'',
                JObj [(''name'', JStr ''test''), (''type'', JStr ''A''), (''ttl'', JInt 10800),
                      (''values'', JArr [JStr ''127.0.0.1'']), (''zone'', JStr ''my.com'')])])\<rparr>"
    by code_simp
  show ?thesis using a f n b c d by blast
qed

text \<open>
  The theorem at the listing of the zone \<^verbatim>\<open>my.com\<close>: the name \<^verbatim>\<open>my.com\<close> finds the zone and
  its identifier, the name \<^verbatim>\<open>My.com\<close> finds nothing and the invocation fails.
\<close>

theorem zone_case_sensitive_witness:
  "zone_scan [my_zone] ''my.com'' = Inr (JStr ''zone-uuid'')
   \<and> (\<exists>obj \<in> set [my_zone]. py_getitem obj ''name'' = Inr (JStr ''my.com'')
                              \<and> py_getitem obj ''uuid'' = Inr (JStr ''zone-uuid''))
   \<and> zone_scan [my_zone] ''My.com'' = Inl (FailJson (''No zone found with name '' @ ''My.com''))
   \<and> fst (get_zones zone_with_record (GandiAPI mixed_case_module) start) = Inr (JArr [my_zone])
   \<and> fst (main zone_with_record mixed_case_module start)
       = Inl (FailJson (''No zone found with name '' @ ''My.com''))"
proof -
  have h1: "zone_scan [my_zone] ''my.com'' = Inr (JStr ''zone-uuid'')" by code_simp
  have h2: "\<forall>obj \<in> set [my_zone]. \<exists>n. py_getitem obj ''name'' = Inr n \<and> n \<noteq> JStr ''My.com''"
    by (simp add: my_zone_def)
  have h3: "p_zone mixed_case_module = Some ''My.com''" by code_simp
  have h4: "''My.com'' \<noteq> []" by simp
  have h5: "fst (get_zones zone_with_record (GandiAPI mixed_case_module) start) = Inr (JArr [my_zone])"
    by code_simp
  have found: "\<exists>obj \<in> set [my_zone]. py_getitem obj ''name'' = Inr (JStr ''my.com'')
                              \<and> py_getitem obj ''uuid'' = Inr (JStr ''zone-uuid'')"
    using zone_case_sensitive [where zs = "[my_zone]" and z = "''my.com''"
        and uuid = "JStr ''zone-uuid''"] h1 by blast
  have missing: "zone_scan [my_zone] ''My.com'' = Inl (FailJson (''No zone found with name '' @ ''My.com''))
     \<and> fst (main zone_with_record mixed_case_module start)
         = Inl (FailJson (''No zone found with name '' @ ''My.com''))"
    using zone_case_sensitive [where zs = "[my_zone]" and z = "''My.com''"
        and m = mixed_case_module and prov = zone_with_record and s = start] h2 h3 h4 h5 by blast
  show ?thesis using h1 found missing h5 by blast
qed

section \<open>Deleting\<close>

text \<open>
  C8. An absent-intent invocation whose lookup finds no record (the lookup returns
  \<^verbatim>\<open>None\<close> or an empty list) exits with \<^verbatim>\<open>changed=false\<close> and no result, and every request
  it sent is a \<^verbatim>\<open>GET\<close>: no \<^verbatim>\<open>DELETE\<close>, \<^verbatim>\<open>POST\<close> or \<^verbatim>\<open>PUT\<close> is issued.
\<close>

theorem absent_without_record_is_noop:
  assumes absent: "p_state m = ''absent''"
    and scope: "truthy_str (p_zone m) \<or> truthy_str (p_domain m)"
    and zone: "resolve_zone prov (GandiAPI m) s = (Inr zone_id, s1)"
    and recs: "get_records prov (GandiAPI m) (lowercase_string (p_record m)) (p_type m) zone_id
                 (lowercase_string (p_domain m)) s1 = (Inr records, s2)"
    and none: "\<not> nonempty records"
  shows "main prov m s = (Inr \<lparr>ex_changed = False, ex_result = None\<rparr>, s2)
         \<and> reads_only s s2
         \<and> filter mutating (sent s2) = filter mutating (sent s)"
proof -
  have d: "delete_dns_records prov (GandiAPI m) s = (Inr False, s2)"
    using zone recs none by (simp add: delete_dns_records_def GandiAPI_fields)
  have m: "main prov m s = (Inr \<lparr>ex_changed = False, ex_result = None\<rparr>, s2)"
    using absent scope d by (auto simp: main_def Let_def GandiAPI_fields)
  have r: "reads_only s s2"
    using resolve_zone_reads [OF zone] get_records_reads [OF recs] by (rule reads_only_trans)
  show ?thesis using m r reads_only_mutating [OF r] by simp
qed

text \<open>
  The theorem at the example deletion against a provider with no record: the lookup is
  answered with 404 and the invocation exits unchanged after that one \<^verbatim>\<open>GET\<close>.
\<close>

theorem absent_without_record_is_noop_witness:
  "main no_records absent_module start = (Inr \<lparr>ex_changed = False, ex_result = None\<rparr>, after_lookup)
   \<and> reads_only start after_lookup
   \<and> filter mutating (sent after_lookup) = filter mutating (sent start)"
proof -
  have h1: "p_state absent_module = ''absent''" by code_simp
  have h2: "truthy_str (p_zone absent_module) \<or> truthy_str (p_domain absent_module)" by code_simp
  have h3: "resolve_zone no_records (GandiAPI absent_module) start = (Inr JNull, start)"
    by code_simp
  have h4: "get_records no_records (GandiAPI absent_module) (lowercase_string (p_record absent_module))
              (p_type absent_module) JNull (lowercase_string (p_domain absent_module)) start
            = (Inr None, after_lookup)"
    by code_simp
  have h5: "\<not> nonempty None" by (simp add: nonempty_def)
  show ?thesis
    by (rule absent_without_record_is_noop [where prov = no_records and s = start
          and m = absent_module, OF h1 h2 h3 h4 h5])
qed

text \<open>
  C7, as claimed: an absent-intent invocation that supplies values fails. With no record
  at the provider it does not: the parameters pass \<^verbatim>\<open>required_if\<close>, the lookup finds
  nothing, \<^verbatim>\<open>delete_record\<close> and its checks are never reached, and the invocation exits
  with \<^verbatim>\<open>changed=false\<close>.
\<close>

theorem absent_with_values_no_record_succeeds:
  "argument_spec_ok (base_module\<lparr>p_state := ''absent''\<rparr>)
   \<and> p_values (base_module\<lparr>p_state := ''absent''\<rparr>) = Some [''127.0.0.1'']
   \<and> main no_records (base_module\<lparr>p_state := ''absent''\<rparr>) start
       = (Inr \<lparr>ex_changed = False, ex_result = None\<rparr>,
          \<lparr>world = (),
           sent = [api_request ''dummyapitoken'' ''/domains/my.com/records/test/A'' ''GET'' None]\<rparr>)"
  by code_simp

text \<open>
  C7, amended. The checks live in \<^verbatim>\<open>delete_record\<close>, which \<^verbatim>\<open>delete_dns_records\<close> calls only
  when the lookup found a record and the module is not in check mode. For every such
  absent-intent invocation in which values are supplied, or the type or the record name
  is missing, the invocation fails with the misuse message, and the failure comes before
  the \<^verbatim>\<open>DELETE\<close>: every request sent is a \<^verbatim>\<open>GET\<close>. For parameters that passed \<^verbatim>\<open>required_if\<close>
  the type and the record name are present, so the message is the one about values. When
  the lookup found a record and the module is in check mode, or when the lookup found no
  record, \<^verbatim>\<open>delete_record\<close> and its checks are not reached, whatever the parameters: the
  invocation exits after the lookup, with \<^verbatim>\<open>changed=true\<close> in the first case and
  \<^verbatim>\<open>changed=false\<close> in the second.
\<close>

theorem delete_misuse_fails_before_delete:
  assumes absent: "p_state m = ''absent''"
    and scope: "truthy_str (p_zone m) \<or> truthy_str (p_domain m)"
    and zone: "resolve_zone prov (GandiAPI m) s = (Inr zone_id, s1)"
    and recs: "get_records prov (GandiAPI m) (lowercase_string (p_record m)) (p_type m) zone_id
                 (lowercase_string (p_domain m)) s1 = (Inr records, s2)"
  shows "(nonempty records \<and> \<not> check_mode m
            \<and> (p_type m = None \<or> p_record m = None \<or> p_values m \<noteq> None) \<longrightarrow>
            main prov m s
              = (Inl (FailJson (if p_type m = None \<or> p_record m = None
                                then ''You must provide a type and a record to delete a record''
                                else ''You cannot provide a value when deleting a record'')), s2))
         \<and> (nonempty records \<and> \<not> check_mode m \<and> argument_spec_ok m \<and> p_values m \<noteq> None \<longrightarrow>
            main prov m s
              = (Inl (FailJson ''You cannot provide a value when deleting a record''), s2))
         \<and> (nonempty records \<and> check_mode m \<longrightarrow>
            main prov m s = (Inr \<lparr>ex_changed = True, ex_result = None\<rparr>, s2))
         \<and> (\<not> nonempty records \<longrightarrow>
            main prov m s = (Inr \<lparr>ex_changed = False, ex_result = None\<rparr>, s2))
         \<and> reads_only s s2
         \<and> filter mutating (sent s2) = filter mutating (sent s)"
proof -
  let ?msg = "if p_type m = None \<or> p_record m = None
              then ''You must provide a type and a record to delete a record''
              else ''You cannot provide a value when deleting a record''"
  have m: "main prov m s = (case delete_dns_records prov (GandiAPI m) s of
             (Inl e, s') \<Rightarrow> (Inl e, s')
           | (Inr changed, s') \<Rightarrow> (Inr \<lparr>ex_changed = changed, ex_result = None\<rparr>, s'))"
    using absent scope by (auto simp: main_def Let_def GandiAPI_fields)
  have a: "main prov m s = (Inl (FailJson ?msg), s2)"
    if some: "nonempty records" and real: "\<not> check_mode m"
      and misuse: "p_type m = None \<or> p_record m = None \<or> p_values m \<noteq> None"
  proof -
    have dr: "delete_record prov (GandiAPI m) (lowercase_string (p_record m)) (p_type m) zone_id
                (lowercase_string (p_domain m)) s2 = (Inl (FailJson ?msg), s2)"
      using misuse by (auto simp: delete_record_def GandiAPI_fields lowercase_string_None)
    have d: "delete_dns_records prov (GandiAPI m) s = (Inl (FailJson ?msg), s2)"
      using zone recs some real dr by (simp add: delete_dns_records_def GandiAPI_fields)
    show ?thesis unfolding m d by simp
  qed
  have spec: "p_type m \<noteq> None \<and> p_record m \<noteq> None" if "argument_spec_ok m"
    using that by (auto simp: argument_spec_ok_def split: if_splits)
  have b: "main prov m s = (Inl (FailJson ''You cannot provide a value when deleting a record''), s2)"
    if "nonempty records" "\<not> check_mode m" "argument_spec_ok m" "p_values m \<noteq> None"
    using a [OF that(1) that(2)] spec [OF that(3)] that(4) by simp
  have c: "main prov m s = (Inr \<lparr>ex_changed = True, ex_result = None\<rparr>, s2)"
    if "nonempty records" "check_mode m"
  proof -
    have "delete_dns_records prov (GandiAPI m) s = (Inr True, s2)"
      using zone recs that by (simp add: delete_dns_records_def GandiAPI_fields)
    then show ?thesis unfolding m by simp
  qed
  have d: "main prov m s = (Inr \<lparr>ex_changed = False, ex_result = None\<rparr>, s2)"
    if "\<not> nonempty records"
  proof -
    have "delete_dns_records prov (GandiAPI m) s = (Inr False, s2)"
      using zone recs that by (simp add: delete_dns_records_def GandiAPI_fields)
    then show ?thesis unfolding m by simp
  qed
  have r: "reads_only s s2"
    using resolve_zone_reads [OF zone] get_records_reads [OF recs] by (rule reads_only_trans)
  show ?thesis using a b c d r reads_only_mutating [OF r] by blast
qed

text \<open>
  The theorem at a deletion that supplies values: against a provider holding the record
  the invocation fails after the lookup and sends no \<^verbatim>\<open>DELETE\<close>; in check mode it exits
  with \<^verbatim>\<open>changed=true\<close>; against a provider with no record it exits with \<^verbatim>\<open>changed=false\<close>.
\<close>

theorem delete_misuse_fails_before_delete_witness:
  "main domain_with_record absent_with_values start
     = (Inl (FailJson ''You cannot provide a value when deleting a record''), after_lookup)
   \<and> main domain_with_record check_absent_with_values start
       = (Inr \<lparr>ex_changed = True, ex_result = None\<rparr>, after_lookup)
   \<and> main no_records absent_with_values start
       = (Inr \<lparr>ex_changed = False, ex_result = None\<rparr>, after_lookup)
   \<and> reads_only start after_lookup
   \<and> filter mutating (sent after_lookup) = filter mutating (sent start)"
proof -
  have h1: "p_state absent_with_values = ''absent''" by code_simp
  have h2: "truthy_str (p_zone absent_with_values) \<or> truthy_str (p_domain absent_with_values)"
    by code_simp
  have h3: "resolve_zone domain_with_record (GandiAPI absent_with_values) start = (Inr JNull, start)"
    by code_simp
  have h4: "get_records domain_with_record (GandiAPI absent_with_values)
              (lowercase_string (p_record absent_with_values)) (p_type absent_with_values) JNull
              (lowercase_string (p_domain absent_with_values)) start
            = (Inr (Some [JObj two_values_fields]), after_lookup)"
    by code_simp
  have h5: "nonempty (Some [JObj two_values_fields])" by (simp add: nonempty_def)
  have h6: "\<not> check_mode absent_with_values" by code_simp
  have h7: "argument_spec_ok absent_with_values" by code_simp
  have h8: "p_values absent_with_values \<noteq> None" by code_simp
  have k1: "p_state check_absent_with_values = ''absent''" by code_simp
  have k2: "truthy_str (p_zone check_absent_with_values)
            \<or> truthy_str (p_domain check_absent_with_values)" by code_simp
  have k3: "resolve_zone domain_with_record (GandiAPI check_absent_with_values) start
            = (Inr JNull, start)" by code_simp
  have k4: "get_records domain_with_record (GandiAPI check_absent_with_values)
              (lowercase_string (p_record check_absent_with_values))
              (p_type check_absent_with_values) JNull
              (lowercase_string (p_domain check_absent_with_values)) start
            = (Inr (Some [JObj two_values_fields]), after_lookup)"
    by code_simp
  have k6: "check_mode check_absent_with_values" by code_simp
  have n3: "resolve_zone no_records (GandiAPI absent_with_values) start = (Inr JNull, start)"
    by code_simp
  have n4: "get_records no_records (GandiAPI absent_with_values)
              (lowercase_string (p_record absent_with_values)) (p_type absent_with_values) JNull
              (lowercase_string (p_domain absent_with_values)) start
            = (Inr None, after_lookup)"
    by code_simp
  have n5: "\<not> nonempty None" by (simp add: nonempty_def)
  note real = delete_misuse_fails_before_delete [where prov = domain_with_record and s = start
      and m = absent_with_values, OF h1 h2 h3 h4]
  note dry = delete_misuse_fails_before_delete [where prov = domain_with_record and s = start
      and m = check_absent_with_values, OF k1 k2 k3 k4]
  note gone = delete_misuse_fails_before_delete [where prov = no_records and s = start
      and m = absent_with_values, OF h1 h2 n3 n4]
  have a: "main domain_with_record absent_with_values start
     = (Inl (FailJson ''You cannot provide a value when deleting a record''), after_lookup)"
    using real h5 h6 h7 h8 by blast
  have b: "main domain_with_record check_absent_with_values start
       = (Inr \<lparr>ex_changed = True, ex_result = None\<rparr>, after_lookup)"
    using dry h5 k6 by blast
  have c: "main no_records absent_with_values start
       = (Inr \<lparr>ex_changed = False, ex_result = None\<rparr>, after_lookup)"
    using gone n5 by blast
  have d: "reads_only start after_lookup
   \<and> filter mutating (sent after_lookup) = filter mutating (sent start)"
    using real by blast
  show ?thesis using a b c d by blast
qed

section \<open>A record that already matches\<close>

text \<open>
  C3. A present-intent invocation whose lookup returns exactly one record, with the ttl
  equal to the desired ttl and the values equal to the desired values as sets (order
  and duplicates ignored): \<^verbatim>\<open>ensure_dns_record\<close> returns that record unchanged with
  \<^verbatim>\<open>changed=false\<close>, the invocation exits with \<^verbatim>\<open>changed=false\<close> and the formatted record,
  and every request sent is a \<^verbatim>\<open>GET\<close>.
\<close>

theorem unchanged_record_is_noop:
  assumes present: "p_state m = ''present''"
    and scope: "truthy_str (p_zone m) \<or> truthy_str (p_domain m)"
    and zone: "resolve_zone prov (GandiAPI m) s = (Inr zone_id, s1)"
    and recs: "get_records prov (GandiAPI m) (lowercase_string (p_record m)) (p_type m) zone_id
                 (lowercase_string (p_domain m)) s1 = (Inr (Some [JObj kvs]), s2)"
    and ttl: "p_ttl m = Some t" "map_of kvs ''rrset_ttl'' = Some (JInt t)"
    and vals: "p_values m = Some vs" "map_of kvs ''rrset_values'' = Some (JArr ws)"
      "set ws = set (map JStr vs)"
  shows "ensure_dns_record prov (GandiAPI m) s = (Inr (JObj kvs, False), s2)
         \<and> main prov m s
             = (Inr \<lparr>ex_changed = False,
                     ex_result = Some (JObj [(''record'',
                       JObj (build_fields [''name'', ''type'', ''ttl'', ''values''] kvs
                             @ (if truthy_str (p_zone m) then [(''zone'', of_str (p_zone m))]
                                else [(''domain'', of_str (lowercase_string (p_domain m)))])))])\<rparr>, s2)
         \<and> reads_only s s2
         \<and> filter mutating (sent s2) = filter mutating (sent s)"
proof -
  have h: "list_all hashable ws"
  proof -
    have "\<forall>w \<in> set ws. hashable w" unfolding vals(3) by auto
    then show ?thesis by (simp add: list_all_iff)
  qed
  have u: "do_update (GandiAPI m) (JObj kvs) = Inr False"
    using ttl vals h
    by (simp add: do_update_def ttl_differs_def values_differ_def py_set_def GandiAPI_fields)
  have e: "ensure_dns_record prov (GandiAPI m) s = (Inr (JObj kvs, False), s2)"
    using zone recs u
    by (simp add: ensure_dns_record_def Let_def nonempty_def first_record_def GandiAPI_fields)
  have m: "main prov m s
             = (Inr \<lparr>ex_changed = False,
                     ex_result = Some (JObj [(''record'',
                       JObj (build_fields [''name'', ''type'', ''ttl'', ''values''] kvs
                             @ (if truthy_str (p_zone m) then [(''zone'', of_str (p_zone m))]
                                else [(''domain'', of_str (lowercase_string (p_domain m)))])))])\<rparr>, s2)"
    using present scope e by (auto simp: main_def Let_def GandiAPI_fields build_result_obj)
  have r: "reads_only s s2"
    using resolve_zone_reads [OF zone] get_records_reads [OF recs] by (rule reads_only_trans)
  show ?thesis using e m r reads_only_mutating [OF r] by simp
qed

text \<open>
  The theorem at the provider's values \<^verbatim>\<open>[192.0.2.92, 192.0.2.91]\<close> against the desired
  values \<^verbatim>\<open>[192.0.2.91, 192.0.2.92]\<close>: judged unchanged.
\<close>

theorem unchanged_record_is_noop_witness:
  "ensure_dns_record domain_with_record (GandiAPI reordered_module) start
     = (Inr (JObj two_values_fields, False), after_lookup)
   \<and> main domain_with_record reordered_module start
       = (Inr \<lparr>ex_changed = False,
               ex_result = Some (JObj [(''record'',
                 JObj (build_fields [''name'', ''type'', ''ttl'', ''values''] two_values_fields
                       @ (if truthy_str (p_zone reordered_module)
                          then [(''zone'', of_str (p_zone reordered_module))]
                          else [(''domain'', of_str (lowercase_string (p_domain reordered_module)))])))])\<rparr>,
          after_lookup)
   \<and> reads_only start after_lookup
   \<and> filter mutating (sent after_lookup) = filter mutating (sent start)"
proof -
  have h1: "p_state reordered_module = ''present''" by code_simp
  have h2: "truthy_str (p_zone reordered_module) \<or> truthy_str (p_domain reordered_module)"
    by code_simp
  have h3: "resolve_zone domain_with_record (GandiAPI reordered_module) start = (Inr JNull, start)"
    by code_simp
  have h4: "get_records domain_with_record (GandiAPI reordered_module)
              (lowercase_string (p_record reordered_module)) (p_type reordered_module) JNull
              (lowercase_string (p_domain reordered_module)) start
            = (Inr (Some [JObj two_values_fields]), after_lookup)"
    by code_simp
  have h5: "p_ttl reordered_module = Some 10800" by code_simp
  have h6: "map_of two_values_fields ''rrset_ttl'' = Some (JInt 10800)" by code_simp
  have h7: "p_values reordered_module = Some [''192.0.2.91'', ''192.0.2.92'']" by code_simp
  have h8: "map_of two_values_fields ''rrset_values''
              = Some (JArr [JStr ''192.0.2.92'', JStr ''192.0.2.91''])" by code_simp
  have h9: "set [JStr ''192.0.2.92'', JStr ''192.0.2.91'']
              = set (map JStr [''192.0.2.91'', ''192.0.2.92''])" by auto
  show ?thesis
    by (rule unchanged_record_is_noop [where prov = domain_with_record and s = start
          and m = reordered_module, OF h1 h2 h3 h4 h5 h6 h7 h8 h9])
qed

section \<open>Zone and domain together\<close>


text \<open>
  An identifier that is empty does not count: \<^verbatim>\<open>if zone_id:\<close> is false for it. With the
  zone \<^verbatim>\<open>my.com\<close> listed under an empty \<^verbatim>\<open>uuid\<close>, the lookup goes to the path of the domain.
\<close>

lemma empty_zone_id_uses_domain_path:
  "scope_url (JStr []) (Some ''example.org'') = ''/domains/example.org''
   \<and> sent (snd (main zone_with_empty_id both_module start))
       = [api_request ''dummyapitoken'' ''/zones'' ''GET'' None,
          api_request ''dummyapitoken'' ''/domains/example.org/records/test/A'' ''GET'' None]"
  by code_simp



section \<open>The facts module only reads\<close>

lemma facts_gandi_api_call_state:
  "snd (facts_gandi_api_call prov self c m p e s)
     = snd (fetch_url prov (api_request (fself_api_key self) c m p) s)"
  by (simp add: facts_gandi_api_call_def api_request_def Let_def split: prod.splits)

lemma facts_gandi_api_call_reads:
  "facts_gandi_api_call prov self c ''GET'' p e s = (r, s') \<Longrightarrow> reads_only s s'"
proof -
  assume a: "facts_gandi_api_call prov self c ''GET'' p e s = (r, s')"
  have "sent s' = sent s @ [api_request (fself_api_key self) c ''GET'' p]"
    using facts_gandi_api_call_state [of prov self c "''GET''" p e s] a
    by (simp add: fetch_url_sent)
  then show ?thesis
    by (rule reads_onlyI) (simp add: api_request_def)
qed

lemma facts_get_zone_id_reads: "facts_get_zone_id prov self z s = (r, s') \<Longrightarrow> reads_only s s'"
  unfolding facts_get_zone_id_def facts_get_zones_def
  by (auto split: prod.splits sum.splits dest: facts_gandi_api_call_reads)

lemma facts_get_records_reads:
  "facts_get_records prov self n t z d s = (r, s') \<Longrightarrow> reads_only s s'"
  unfolding facts_get_records_def Let_def
  by (auto split: prod.splits sum.splits if_splits dest: facts_gandi_api_call_reads)

lemma get_dns_records_reads: "get_dns_records prov self s = (r, s') \<Longrightarrow> reads_only s s'"
  unfolding get_dns_records_def
  by (auto split: prod.splits sum.splits if_splits
      dest: facts_get_zone_id_reads facts_get_records_reads
      intro: reads_only_trans reads_only_refl)

text \<open>
  C9, as claimed: the facts module always exits reporting \<^verbatim>\<open>changed=false\<close>, whatever its
  inputs and the provider's responses. It does not always exit: with neither zone nor
  domain, and with a provider that answers 500, the invocation ends in \<^verbatim>\<open>fail_json\<close>, which
  reports a failure and no \<^verbatim>\<open>changed\<close>.
\<close>

theorem facts_module_fails_without_exit:
  "facts_main no_records (facts_base\<lparr>fp_domain := None\<rparr>) start
     = (Inl (FailJson ''At least one of zone and domain parameters need to be defined.''), start)
   \<and> facts_main server_error facts_base start
       = (Inl (FailJson ''API error ; Status: 500; Method: GET: Call: /domains/my.com/records/test/A''),
          after_lookup)"
  by code_simp

text \<open>
  C9, amended. Whatever the parameters and whatever the provider answers, every request
  an invocation of the facts module sends is a \<^verbatim>\<open>GET\<close> (none is a \<^verbatim>\<open>POST\<close>, \<^verbatim>\<open>PUT\<close> or
  \<^verbatim>\<open>DELETE\<close>), and it never reports a change: an invocation that does not end in
  \<^verbatim>\<open>fail_json\<close> or an exception exits with \<^verbatim>\<open>changed=false\<close>.
\<close>

theorem facts_module_read_only:
  "reads_only s (snd (facts_main prov m s))
   \<and> filter mutating (sent (snd (facts_main prov m s))) = filter mutating (sent s)
   \<and> (case fst (facts_main prov m s) of Inl e \<Rightarrow> True | Inr ex \<Rightarrow> fx_changed ex = False)"
proof -
  obtain r s' where g: "get_dns_records prov (facts_GandiAPI m) s = (r, s')"
    by (cases "get_dns_records prov (facts_GandiAPI m) s")
  have rs: "reads_only s s'" using g by (rule get_dns_records_reads)
  have st: "snd (facts_main prov m s) = s \<or> snd (facts_main prov m s) = s'"
    using g by (auto simp: facts_main_def Let_def split: sum.splits)
  have a: "reads_only s (snd (facts_main prov m s))"
    using st rs reads_only_refl [of s] by auto
  have c: "case fst (facts_main prov m s) of Inl e \<Rightarrow> True | Inr ex \<Rightarrow> fx_changed ex = False"
    using g by (auto simp: facts_main_def Let_def split: sum.splits)
  show ?thesis using a reads_only_mutating [OF a] c by simp
qed

text \<open>
  The theorem at the zone \<^verbatim>\<open>my.com\<close>: the zone listing and the record lookup are the two
  requests, and the invocation exits with \<^verbatim>\<open>changed=false\<close> and the record as a fact.
\<close>

theorem facts_module_read_only_witness:
  "reads_only start (snd (facts_main zone_with_record facts_zoned start))
   \<and> filter mutating (sent (snd (facts_main zone_with_record facts_zoned start)))
       = filter mutating (sent start)
   \<and> (case fst (facts_main zone_with_record facts_zoned start) of
         Inl e \<Rightarrow> True | Inr ex \<Rightarrow> fx_changed ex = False)
   \<and> facts_main zone_with_record facts_zoned start
       = (Inr \<lparr>fx_changed = False,
               fx_ansible_facts = JObj [(''gandi_livedns_facts'', JObj [(''records'',
                 JArr [JObj [(''name'', JStr ''test''), (''type'', JStr ''A''), (''ttl'', JInt 10800),
                             (''values'', JArr [JStr ''127.0.0.1'']), (''zone'', JStr ''my.com'')]])])]\<rparr>,
          \<lparr>world = (),
           sent = [api_request ''dummyapitoken'' ''/zones'' ''GET'' None,
                   api_request ''dummyapitoken'' ''/zones/zone-uuid/records/test/A'' ''GET'' None]\<rparr>)"
proof -
  have e: "facts_main zone_with_record facts_zoned start
       = (Inr \<lparr>fx_changed = False,
               fx_ansible_facts = JObj [(''gandi_livedns_facts'', JObj [(''records'',
                 JArr [JObj [(''name'', JStr ''test''), (''type'', JStr ''A''), (''ttl'', JInt 10800),
                             (''values'', JArr [JStr ''127.0.0.1'']), (''zone'', JStr ''my.com'')]])])]\<rparr>,
          \<lparr>world = (),
           sent = [api_request ''dummyapitoken'' ''/zones'' ''GET'' None,
                   api_request ''dummyapitoken'' ''/zones/zone-uuid/records/test/A'' ''GET'' None]\<rparr>)"
    by code_simp
  show ?thesis
    using facts_module_read_only [of start zone_with_record facts_zoned] e by blast
qed

end
